theory Spec2Isabelle
  imports Main
begin

section \<open>Python values decoded from JSON\<close>

text \<open>
  The upstream body is decoded by \<^verbatim>\<open>response.json()\<close> into Python values, which the
  client walks with \<^verbatim>\<open>.get\<close>, \<^verbatim>\<open>[0]\<close> and truth tests. A string is a list of code
  points (those below 256 are held). A float is held by its Python \<^verbatim>\<open>repr\<close>, which is
  all the program can see of it (its truth value and its printed form). A dict is an
  association list in insertion order; a lookup takes the first binding of a key.
\<close>

datatype json =
    JNull
  | JBool bool
  | JInt int
  | JFloat string
  | JStr string
  | JArr "json list"
  | JObj "(string \<times> json) list"

text \<open>Exceptions, each with its \<^verbatim>\<open>str(e)\<close>. \<open>PyException\<close> is any other subclass of
  \<^verbatim>\<open>Exception\<close> (a transport error, a JSON decoding error, a validation error).
  \<open>GeminiTimeoutError\<close> is a subclass of \<open>GeminiError\<close> whose status code is never set.\<close>

datatype exn =
    TimeoutException string
  | GeminiTimeoutError string
  | GeminiError string "int option"
  | KeyError string
  | IndexError string
  | TypeError string
  | AttributeError string
  | PyException string

fun exn_str :: "exn \<Rightarrow> string" where
  "exn_str (TimeoutException m) = m"
| "exn_str (GeminiTimeoutError m) = m"
| "exn_str (GeminiError m sc) = m"
| "exn_str (KeyError m) = m"
| "exn_str (IndexError m) = m"
| "exn_str (TypeError m) = m"
| "exn_str (AttributeError m) = m"
| "exn_str (PyException m) = m"

text \<open>Python's truth test (\<^verbatim>\<open>not x\<close> is its negation).\<close>

fun truthy :: "json \<Rightarrow> bool" where
  "truthy JNull = False"
| "truthy (JBool b) = b"
| "truthy (JInt n) = (n \<noteq> 0)"
| "truthy (JFloat r) = (r \<noteq> ''0.0'' \<and> r \<noteq> ''-0.0'')"
| "truthy (JStr s) = (s \<noteq> [])"
| "truthy (JArr xs) = (xs \<noteq> [])"
| "truthy (JObj kvs) = (kvs \<noteq> [])"

fun type_name :: "json \<Rightarrow> string" where
  "type_name JNull = ''NoneType''"
| "type_name (JBool b) = ''bool''"
| "type_name (JInt n) = ''int''"
| "type_name (JFloat r) = ''float''"
| "type_name (JStr s) = ''str''"
| "type_name (JArr xs) = ''list''"
| "type_name (JObj kvs) = ''dict''"

definition quoted :: "string \<Rightarrow> string" where
  "quoted s = [CHR 0x27] @ s @ [CHR 0x27]"

text \<open>\<^verbatim>\<open>x.get(k, d)\<close>: only a dict has the method.\<close>

fun py_get :: "json \<Rightarrow> string \<Rightarrow> json \<Rightarrow> exn + json" where
  "py_get (JObj kvs) k d = Inr (case map_of kvs k of Some v \<Rightarrow> v | None \<Rightarrow> d)"
| "py_get v k d =
     Inl (AttributeError (quoted (type_name v) @ '' object has no attribute '' @ quoted ''get''))"

text \<open>\<^verbatim>\<open>x[0]\<close>: the first element of a list or a string, \<^verbatim>\<open>KeyError(0)\<close> on a dict
  (its keys are strings), \<^verbatim>\<open>TypeError\<close> on anything else.\<close>

fun py_getitem0 :: "json \<Rightarrow> exn + json" where
  "py_getitem0 (JArr []) = Inl (IndexError ''list index out of range'')"
| "py_getitem0 (JArr (x # xs)) = Inr x"
| "py_getitem0 (JStr []) = Inl (IndexError ''string index out of range'')"
| "py_getitem0 (JStr (c # cs)) = Inr (JStr [c])"
| "py_getitem0 (JObj kvs) = Inl (KeyError ''0'')"
| "py_getitem0 v = Inl (TypeError (quoted (type_name v) @ '' object is not subscriptable''))"

subsection \<open>Printing a value: \<^verbatim>\<open>str\<close> and \<^verbatim>\<open>repr\<close>\<close>

fun digits :: "nat \<Rightarrow> string" where
  "digits n =
     (if n < 10 then [''0123456789'' ! n]
      else digits (n div 10) @ [''0123456789'' ! (n mod 10)])"

declare digits.simps [simp del]

definition int_str :: "int \<Rightarrow> string" where
  "int_str i = (if i < 0 then ''-'' @ digits (nat (- i)) else digits (nat i))"

definition hex2 :: "nat \<Rightarrow> string" where
  "hex2 n = [''0123456789abcdef'' ! (n div 16 mod 16), ''0123456789abcdef'' ! (n mod 16)]"

text \<open>One character of a string's \<^verbatim>\<open>repr\<close>, inside the quote character \<open>q\<close>.\<close>

definition repr_char :: "char \<Rightarrow> char \<Rightarrow> string" where
  "repr_char q c =
     (let n = (of_char c :: nat) in
      if c = q \<or> c = CHR 0x5C then [CHR 0x5C, c]
      else if n = 9 then [CHR 0x5C, CHR ''t'']
      else if n = 10 then [CHR 0x5C, CHR ''n'']
      else if n = 13 then [CHR 0x5C, CHR ''r'']
      else if n < 32 \<or> n = 127 then [CHR 0x5C, CHR ''x''] @ hex2 n
      else if n < 127 then [c]
      else if n \<le> 160 \<or> n = 173 then [CHR 0x5C, CHR ''x''] @ hex2 n
      else [c])"

definition repr_str :: "string \<Rightarrow> string" where
  "repr_str s =
     (let q = (if CHR 0x27 \<in> set s \<and> CHR 0x22 \<notin> set s then CHR 0x22 else CHR 0x27)
      in [q] @ concat (map (repr_char q) s) @ [q])"

fun join :: "string \<Rightarrow> string list \<Rightarrow> string" where
  "join sep [] = []"
| "join sep [x] = x"
| "join sep (x # y # ys) = x @ sep @ join sep (y # ys)"

fun py_repr :: "json \<Rightarrow> string" where
  "py_repr JNull = ''None''"
| "py_repr (JBool b) = (if b then ''True'' else ''False'')"
| "py_repr (JInt n) = int_str n"
| "py_repr (JFloat r) = r"
| "py_repr (JStr s) = repr_str s"
| "py_repr (JArr xs) = ''['' @ join '', '' (map py_repr xs) @ '']''"
| "py_repr (JObj kvs) =
     ''{'' @ join '', '' (map (\<lambda>(k, v). repr_str k @ '': '' @ py_repr v) kvs) @ ''}''"

text \<open>\<^verbatim>\<open>str(x)\<close>, as an f-string formats \<open>x\<close>: a string as it is, anything else by its repr.\<close>

fun py_str :: "json \<Rightarrow> string" where
  "py_str (JStr s) = s"
| "py_str v = py_repr v"

section \<open>The Gemini client (api/gemini_client.py)\<close>

record GeminiClient =
  api_key :: string
  base_url :: string
  model :: string
  timeout :: int

text \<open>\<^verbatim>\<open>GeminiClient.__init__\<close>, with the configuration at the defaults the module gives
  \<^verbatim>\<open>GEMINI_BASE_URL\<close>, \<^verbatim>\<open>GEMINI_MODEL\<close> and \<^verbatim>\<open>GEMINI_TIMEOUT\<close>.\<close>

definition GeminiClient_init :: "string \<Rightarrow> GeminiClient" where
  "GeminiClient_init key =
     \<lparr> api_key = key,
       base_url = ''https://generativelanguage.googleapis.com/v1beta'',
       model = ''gemini-2.5-flash'',
       timeout = 20 \<rparr>"

record http_request =
  url :: string
  json_payload :: json
  headers :: "(string \<times> string) list"
  params :: "(string \<times> string) list"

text \<open>What the client reads of an \<^verbatim>\<open>httpx.Response\<close>: its status code, its text and what
  \<^verbatim>\<open>response.json()\<close> gives (the decoded body, or the exception it raises).\<close>

record response =
  status_code :: int
  body_text :: string
  json :: "exn + json"

definition build_request :: "GeminiClient \<Rightarrow> string \<Rightarrow> int option \<Rightarrow> http_request" where
  "build_request self prompt max_tokens =
     \<lparr> url = base_url self @ ''/models/'' @ model self @ '':generateContent'',
       json_payload =
         JObj [(''contents'', JArr [JObj [(''parts'', JArr [JObj [(''text'', JStr prompt)]])]]),
               (''generationConfig'',
                  JObj [(''maxOutputTokens'', (case max_tokens of None \<Rightarrow> JNull | Some n \<Rightarrow> JInt n)),
                        (''temperature'', JFloat ''0.7''),
                        (''topP'', JFloat ''0.9''),
                        (''topK'', JInt 40)])],
       headers = [(''Content-Type'', ''application/json'')],
       params = [(''key'', api_key self)] \<rparr>"

text \<open>The body of \<^verbatim>\<open>_extract_reply\<close>'s \<^verbatim>\<open>try\<close>.\<close>

definition extract_reply_try :: "json \<Rightarrow> exn + json" where
  "extract_reply_try data =
     (case py_get data ''candidates'' (JArr []) of
        Inl e \<Rightarrow> Inl e
      | Inr candidates \<Rightarrow>
          if \<not> truthy candidates then Inl (GeminiError ''No candidates in response'' None)
          else (case py_getitem0 candidates of
            Inl e \<Rightarrow> Inl e
          | Inr candidate \<Rightarrow>
              (case py_get candidate ''content'' (JObj []) of
                 Inl e \<Rightarrow> Inl e
               | Inr content \<Rightarrow>
                   (case py_get content ''parts'' (JArr []) of
                      Inl e \<Rightarrow> Inl e
                    | Inr parts \<Rightarrow>
                        if \<not> truthy parts
                        then Inl (GeminiError ''No parts in response content'' None)
                        else (case py_getitem0 parts of
                          Inl e \<Rightarrow> Inl e
                        | Inr part \<Rightarrow>
                            (case py_get part ''text'' (JStr []) of
                               Inl e \<Rightarrow> Inl e
                             | Inr reply \<Rightarrow>
                                 if \<not> truthy reply
                                 then Inl (GeminiError ''Empty reply from Gemini'' None)
                                 else Inr reply))))))"

text \<open>\<^verbatim>\<open>_extract_reply\<close>: \<^verbatim>\<open>KeyError\<close>, \<^verbatim>\<open>IndexError\<close> and \<^verbatim>\<open>TypeError\<close> become a
  \<open>GeminiError\<close>; every other exception passes through.\<close>

definition extract_reply :: "json \<Rightarrow> exn + json" where
  "extract_reply data =
     (case extract_reply_try data of
        Inl (KeyError m) \<Rightarrow> Inl (GeminiError (''Invalid response format: '' @ m) None)
      | Inl (IndexError m) \<Rightarrow> Inl (GeminiError (''Invalid response format: '' @ m) None)
      | Inl (TypeError m) \<Rightarrow> Inl (GeminiError (''Invalid response format: '' @ m) None)
      | r \<Rightarrow> r)"

text \<open>The error detail of a response whose status is not 200: the inner \<^verbatim>\<open>try\<close> with its
  bare \<^verbatim>\<open>except\<close>.\<close>

definition error_detail :: "response \<Rightarrow> json" where
  "error_detail r =
     (case json r of
        Inl e \<Rightarrow> JStr (take 200 (body_text r))
      | Inr error_data \<Rightarrow>
          (case py_get error_data ''error'' (JObj []) of
             Inl e \<Rightarrow> JStr (take 200 (body_text r))
           | Inr err \<Rightarrow>
               (case py_get err ''message'' (JStr ''Unknown error'') of
                  Inl e \<Rightarrow> JStr (take 200 (body_text r))
                | Inr m \<Rightarrow> m)))"

text \<open>The body of \<^verbatim>\<open>generate_response\<close>'s \<^verbatim>\<open>try\<close>. \<open>post\<close> is the transport: what
  \<^verbatim>\<open>client.post\<close> returns or raises for a request. The result is the dict the method
  returns.\<close>

definition generate_response_try ::
  "GeminiClient \<Rightarrow> (http_request \<Rightarrow> exn + response) \<Rightarrow> string \<Rightarrow> int option
     \<Rightarrow> exn + (string \<times> json) list" where
  "generate_response_try self post prompt max_tokens =
     (case post (build_request self prompt max_tokens) of
        Inl e \<Rightarrow> Inl e
      | Inr r \<Rightarrow>
          if status_code r \<noteq> 200
          then Inl (GeminiError (''Gemini API error: '' @ py_str (error_detail r))
                      (Some (status_code r)))
          else (case json r of
            Inl e \<Rightarrow> Inl e
          | Inr data \<Rightarrow>
              (case extract_reply data of
                 Inl e \<Rightarrow> Inl e
               | Inr reply \<Rightarrow>
                   (case py_get data ''usageMetadata'' (JObj []) of
                      Inl e \<Rightarrow> Inl e
                    | Inr usage_metadata \<Rightarrow>
                        (case py_get usage_metadata ''promptTokenCount'' JNull of
                           Inl e \<Rightarrow> Inl e
                         | Inr prompt_tokens \<Rightarrow>
                             (case py_get usage_metadata ''candidatesTokenCount'' JNull of
                                Inl e \<Rightarrow> Inl e
                              | Inr completion_tokens \<Rightarrow>
                                  Inr [(''reply'', reply),
                                       (''model'', JStr (model self)),
                                       (''prompt_tokens'', prompt_tokens),
                                       (''completion_tokens'', completion_tokens)]))))))"

text \<open>\<^verbatim>\<open>generate_response\<close>: the \<^verbatim>\<open>except\<close> clauses in the source's order.\<close>

definition generate_response ::
  "GeminiClient \<Rightarrow> (http_request \<Rightarrow> exn + response) \<Rightarrow> string \<Rightarrow> int option
     \<Rightarrow> exn + (string \<times> json) list" where
  "generate_response self post prompt max_tokens =
     (case generate_response_try self post prompt max_tokens of
        Inr result \<Rightarrow> Inr result
      | Inl (TimeoutException m) \<Rightarrow> Inl (GeminiTimeoutError ''Request to Gemini API timed out'')
      | Inl (GeminiTimeoutError m) \<Rightarrow> Inl (GeminiTimeoutError m)
      | Inl (GeminiError m sc) \<Rightarrow> Inl (GeminiError m sc)
      | Inl e \<Rightarrow> Inl (GeminiError (''Unexpected error: '' @ exn_str e) None))"

section \<open>The handler (api/handlers.py)\<close>

record AIRequest =
  prompt :: string
  max_tokens :: "int option"

record UsageInfo =
  prompt_tokens :: "int option"
  completion_tokens :: "int option"

text \<open>The response model. Its fields \<^verbatim>\<open>id\<close> and \<^verbatim>\<open>model\<close> are \<open>id_str\<close> and \<open>model_id\<close>
  here (\<open>id\<close> is a HOL constant, \<open>model\<close> a field of the client).\<close>

record AIResponse =
  id_str :: string
  reply :: string
  model_id :: string
  usage :: UsageInfo

datatype HTTPException = HTTPException (http_status: int) (detail: string)

text \<open>\<^verbatim>\<open>d[k]\<close> and \<^verbatim>\<open>d.get(k)\<close> on the dict that \<^verbatim>\<open>generate_response\<close> returns.\<close>

definition dict_item :: "(string \<times> json) list \<Rightarrow> string \<Rightarrow> exn + json" where
  "dict_item d k = (case map_of d k of Some v \<Rightarrow> Inr v | None \<Rightarrow> Inl (KeyError (repr_str k)))"

definition dict_get :: "(string \<times> json) list \<Rightarrow> string \<Rightarrow> json" where
  "dict_get d k = (case map_of d k of Some v \<Rightarrow> v | None \<Rightarrow> JNull)"

text \<open>The field validation of the pydantic models, which the sources only declare
  (\<^verbatim>\<open>reply: str\<close>, \<^verbatim>\<open>prompt_tokens: Optional[int]\<close>). A \<^verbatim>\<open>str\<close> field takes a string.
  An \<^verbatim>\<open>Optional[int]\<close> field takes \<^verbatim>\<open>None\<close> or an int, and pydantic also turns into an
  int a bool (\<^verbatim>\<open>True\<close> is 1), a float with no fractional part (\<^verbatim>\<open>3.0\<close> is 3) and a string
  of decimal digits (\<^verbatim>\<open>"3"\<close> is 3). Those are modelled; any other value (a list, a dict,
  a float with a fraction or printed with an exponent, any other string) is refused here,
  and what pydantic does with the spellings beyond these depends on its version.\<close>

fun validate_str :: "json \<Rightarrow> exn + string" where
  "validate_str (JStr s) = Inr s"
| "validate_str v = Inl (PyException ''validation error'')"

definition digit_of :: "char \<Rightarrow> nat option" where
  "digit_of c =
     (let n = (of_char c :: nat) in if 48 \<le> n \<and> n \<le> 57 then Some (n - 48) else None)"

fun nat_of_digits :: "nat \<Rightarrow> string \<Rightarrow> nat option" where
  "nat_of_digits acc [] = Some acc"
| "nat_of_digits acc (c # cs) =
     (case digit_of c of None \<Rightarrow> None | Some d \<Rightarrow> nat_of_digits (10 * acc + d) cs)"

text \<open>A string of decimal digits, with an optional minus sign, as an int.\<close>

fun int_of_str :: "string \<Rightarrow> int option" where
  "int_of_str [] = None"
| "int_of_str (c # cs) =
     (if c = CHR ''-''
      then (if cs = [] then None else map_option (\<lambda>n. - int n) (nat_of_digits 0 cs))
      else map_option int (nat_of_digits 0 (c # cs)))"

text \<open>A float given by its repr: an integral float below \<^verbatim>\<open>1e16\<close> prints as its digits
  followed by \<^verbatim>\<open>.0\<close>.\<close>

definition int_of_float_repr :: "string \<Rightarrow> int option" where
  "int_of_float_repr r =
     (if 3 \<le> length r \<and> drop (length r - 2) r = ''.0''
      then int_of_str (take (length r - 2) r)
      else None)"

fun validate_optional_int :: "json \<Rightarrow> exn + int option" where
  "validate_optional_int JNull = Inr None"
| "validate_optional_int (JInt n) = Inr (Some n)"
| "validate_optional_int (JBool b) = Inr (Some (if b then 1 else 0))"
| "validate_optional_int (JFloat r) =
     (case int_of_float_repr r of
        Some n \<Rightarrow> Inr (Some n)
      | None \<Rightarrow> Inl (PyException ''validation error''))"
| "validate_optional_int (JStr s) =
     (case int_of_str s of
        Some n \<Rightarrow> Inr (Some n)
      | None \<Rightarrow> Inl (PyException ''validation error''))"
| "validate_optional_int v = Inl (PyException ''validation error'')"

text \<open>The body of \<^verbatim>\<open>ai_reply\<close>'s \<^verbatim>\<open>try\<close>. \<open>uuid4\<close> is the identifier \<^verbatim>\<open>uuid.uuid4()\<close>
  draws for this call.\<close>

definition ai_reply_try ::
  "GeminiClient \<Rightarrow> (http_request \<Rightarrow> exn + response) \<Rightarrow> string \<Rightarrow> AIRequest
     \<Rightarrow> exn + AIResponse" where
  "ai_reply_try client post uuid4 ai_request =
     (let response_id = uuid4 in
      case generate_response client post (prompt ai_request) (max_tokens ai_request) of
        Inl e \<Rightarrow> Inl e
      | Inr result \<Rightarrow>
          (case dict_item result ''reply'' of
             Inl e \<Rightarrow> Inl e
           | Inr reply_v \<Rightarrow>
               (case dict_item result ''model'' of
                  Inl e \<Rightarrow> Inl e
                | Inr model_v \<Rightarrow>
                    (case validate_optional_int (dict_get result ''prompt_tokens'') of
                       Inl e \<Rightarrow> Inl e
                     | Inr pt \<Rightarrow>
                         (case validate_optional_int (dict_get result ''completion_tokens'') of
                            Inl e \<Rightarrow> Inl e
                          | Inr ct \<Rightarrow>
                              (case validate_str reply_v of
                                 Inl e \<Rightarrow> Inl e
                               | Inr reply_s \<Rightarrow>
                                   (case validate_str model_v of
                                      Inl e \<Rightarrow> Inl e
                                    | Inr model_s \<Rightarrow>
                                        Inr \<lparr> id_str = response_id,
                                              reply = reply_s,
                                              model_id = model_s,
                                              usage = \<lparr> prompt_tokens = pt,
                                                        completion_tokens = ct \<rparr> \<rparr>)))))))"

text \<open>The \<^verbatim>\<open>except\<close> clauses of \<^verbatim>\<open>ai_reply\<close>, in the source's order. Every \<open>GeminiError\<close> has
  the attribute \<^verbatim>\<open>status_code\<close>, so the \<^verbatim>\<open>hasattr\<close> test always holds.\<close>

fun ai_reply_except :: "exn \<Rightarrow> HTTPException" where
  "ai_reply_except (GeminiTimeoutError m) = HTTPException 504 ''Request to Gemini AI timed out''"
| "ai_reply_except (GeminiError m sc) =
     HTTPException
       (if sc = Some 401 then 500
        else if sc = Some 429 then 503
        else 502)
       (''Gemini API error: '' @ m)"
| "ai_reply_except e = HTTPException 500 ''Internal server error''"

definition ai_reply ::
  "GeminiClient \<Rightarrow> (http_request \<Rightarrow> exn + response) \<Rightarrow> string \<Rightarrow> AIRequest
     \<Rightarrow> HTTPException + AIResponse" where
  "ai_reply client post uuid4 ai_request =
     (case ai_reply_try client post uuid4 ai_request of
        Inr r \<Rightarrow> Inr r
      | Inl e \<Rightarrow> Inl (ai_reply_except e))"

text \<open>The status the framework sends: the exception's, or 200 with the response model.\<close>

fun outward_status :: "HTTPException + AIResponse \<Rightarrow> int" where
  "outward_status (Inl e) = http_status e"
| "outward_status (Inr r) = 200"

section \<open>Vocabulary of the properties\<close>



text \<open>A member of a dict that is absent, or present with a value that fails the truth test
  (an empty list, an empty string, \<^verbatim>\<open>None\<close>, zero).\<close>

fun missing_or_falsy :: "json option \<Rightarrow> bool" where
  "missing_or_falsy None = True"
| "missing_or_falsy (Some v) = (\<not> truthy v)"

fun is_dict :: "json \<Rightarrow> bool" where
  "is_dict (JObj kvs) = True"
| "is_dict v = False"

section \<open>Admission\<close>

text \<open>
  Modelled from the spec: the admission check of RequestGate (spec section 4.2) and its
  RateState (section 3). The sources only attach the limit to \<^verbatim>\<open>ai_reply\<close>, with the
  decorator \<^verbatim>\<open>@limiter.limit("<RATE_LIMIT_PER_MIN>/minute")\<close> of the slowapi library, keyed by
  the caller's remote address; the code that counts and rejects is that library's and is
  not in the sources. The model follows the spec's words: a counter and a window start
  per caller identity, reset when the window has elapsed; a call whose count would exceed
  the limit is rejected without invoking the upstream client, any other call increments
  the counter and proceeds. \<open>upstream_calls\<close> counts the invocations of the client.
\<close>

record RateState =
  counter :: nat
  window_start :: nat

record Gate =
  rates :: "string \<Rightarrow> RateState option"
  upstream_calls :: nat

datatype outward = RateLimited | Handled "HTTPException + AIResponse"

definition current_window :: "nat \<Rightarrow> nat \<Rightarrow> RateState option \<Rightarrow> RateState" where
  "current_window window now entry =
     (case entry of
        None \<Rightarrow> \<lparr> counter = 0, window_start = now \<rparr>
      | Some s \<Rightarrow>
          if now < window_start s + window then s
          else \<lparr> counter = 0, window_start = now \<rparr>)"

definition handle ::
  "nat \<Rightarrow> nat \<Rightarrow> GeminiClient \<Rightarrow> (http_request \<Rightarrow> exn + response) \<Rightarrow> Gate
     \<Rightarrow> nat \<Rightarrow> string \<Rightarrow> string \<Rightarrow> AIRequest \<Rightarrow> outward \<times> Gate" where
  "handle limit window client post gate now caller uuid4 ai_request =
     (let s = current_window window now (rates gate caller) in
      if limit < counter s + 1
      then (RateLimited, gate\<lparr> rates := (rates gate)(caller := Some s) \<rparr>)
      else (Handled (ai_reply client post uuid4 ai_request),
            gate\<lparr> rates := (rates gate)(caller := Some (s\<lparr> counter := counter s + 1 \<rparr>)),
                  upstream_calls := upstream_calls gate + 1 \<rparr>))"

definition empty_gate :: Gate where
  "empty_gate = \<lparr> rates = (\<lambda>caller. None), upstream_calls = 0 \<rparr>"

section \<open>Properties\<close>

lemma try_timeout:
  "post (build_request c p mt) = Inl e \<Longrightarrow> generate_response_try c post p mt = Inl e"
  by (simp add: generate_response_try_def)

lemma try_rejected:
  "post (build_request c p mt) = Inr r \<Longrightarrow> status_code r \<noteq> 200 \<Longrightarrow>
   generate_response_try c post p mt =
     Inl (GeminiError (''Gemini API error: '' @ py_str (error_detail r)) (Some (status_code r)))"
  by (simp add: generate_response_try_def)

lemma try_success:
  "post (build_request c p mt) = Inr r \<Longrightarrow> status_code r = 200 \<Longrightarrow> json r = Inr data \<Longrightarrow>
   extract_reply data = Inl e \<Longrightarrow> generate_response_try c post p mt = Inl e"
  by (simp add: generate_response_try_def)

lemma generate_gemini:
  "generate_response_try c post p mt = Inl (GeminiError m sc) \<Longrightarrow>
   generate_response c post p mt = Inl (GeminiError m sc)"
  by (simp add: generate_response_def)

lemma reply_gemini:
  "generate_response c post (prompt req) (max_tokens req) = Inl e \<Longrightarrow>
   ai_reply c post u req = Inl (ai_reply_except e)"
  by (simp add: ai_reply_def ai_reply_try_def)




lemma extract_no_candidates:
  "missing_or_falsy (map_of data ''candidates'') \<Longrightarrow>
   extract_reply (JObj data) = Inl (GeminiError ''No candidates in response'' None)"
  by (cases "map_of data ''candidates''") (simp_all add: extract_reply_def extract_reply_try_def)

lemma extract_no_parts:
  assumes "map_of data ''candidates'' = Some (JArr (JObj cand # cs))"
    and "map_of cand ''content'' = None \<or>
         (map_of cand ''content'' = Some (JObj content) \<and> missing_or_falsy (map_of content ''parts''))"
  shows "extract_reply (JObj data) = Inl (GeminiError ''No parts in response content'' None)"
  using assms
  by (cases "map_of content ''parts''") (auto simp: extract_reply_def extract_reply_try_def)

lemma extract_empty_text:
  assumes "map_of data ''candidates'' = Some (JArr (JObj cand # cs))"
    and "map_of cand ''content'' = Some (JObj content)"
    and "map_of content ''parts'' = Some (JArr (JObj part # ps))"
    and "missing_or_falsy (map_of part ''text'')"
  shows "extract_reply (JObj data) = Inl (GeminiError ''Empty reply from Gemini'' None)"
  using assms
  by (cases "map_of part ''text''") (auto simp: extract_reply_def extract_reply_try_def)

lemma extract_text:
  assumes "map_of data ''candidates'' = Some (JArr (JObj cand # cs))"
    and "map_of cand ''content'' = Some (JObj content)"
    and "map_of content ''parts'' = Some (JArr (JObj part # ps))"
    and "map_of part ''text'' = Some v" and "truthy v"
  shows "extract_reply (JObj data) = Inr v"
  using assms by (simp add: extract_reply_def extract_reply_try_def)

lemma malformed_pipeline:
  assumes "post (build_request c (prompt req) (max_tokens req)) = Inr r"
    and "status_code r = 200" and "json r = Inr data"
    and "extract_reply data = Inl (GeminiError m None)"
  shows "generate_response c post (prompt req) (max_tokens req) = Inl (GeminiError m None)
       \<and> ai_reply c post u req = Inl (HTTPException 502 (''Gemini API error: '' @ m))"
proof -
  have g: "generate_response c post (prompt req) (max_tokens req) = Inl (GeminiError m None)"
    using assms by (simp add: try_success generate_gemini)
  from reply_gemini [OF g] g show ?thesis by simp
qed

lemma rejected_pipeline:
  assumes "post (build_request c (prompt req) (max_tokens req)) = Inr r"
    and "status_code r \<noteq> 200"
  shows "generate_response c post (prompt req) (max_tokens req) =
           Inl (GeminiError (''Gemini API error: '' @ py_str (error_detail r)) (Some (status_code r)))"
  using assms by (simp add: try_rejected generate_gemini)

lemma detail_structured:
  "json r = Inr (JObj d) \<Longrightarrow> map_of d ''error'' = Some (JObj e) \<Longrightarrow> map_of e ''message'' = Some m
   \<Longrightarrow> error_detail r = m"
  by (simp add: error_detail_def)

lemma detail_unknown:
  "json r = Inr (JObj d) \<Longrightarrow>
   map_of d ''error'' = None \<or> (map_of d ''error'' = Some (JObj e) \<and> map_of e ''message'' = None)
   \<Longrightarrow> error_detail r = JStr ''Unknown error''"
  by (auto simp: error_detail_def)

lemma py_get_not_dict: "\<not> is_dict v \<Longrightarrow> py_get v k d = Inl (AttributeError (quoted (type_name v) @ '' object has no attribute '' @ quoted ''get''))"
  by (cases v) simp_all

lemma detail_raw:
  assumes "(\<exists>x. json r = Inl x) \<or> (json r = Inr v \<and> \<not> is_dict v)
     \<or> (json r = Inr (JObj d) \<and> map_of d ''error'' = Some v \<and> \<not> is_dict v)"
  shows "error_detail r = JStr (take 200 (body_text r))"
proof -
  consider (raise) x where "json r = Inl x"
    | (body) "json r = Inr v" "\<not> is_dict v"
    | (member) "json r = Inr (JObj d)" "map_of d ''error'' = Some v" "\<not> is_dict v"
    using assms by blast
  then show ?thesis
  proof cases
    case raise
    then show ?thesis by (simp add: error_detail_def)
  next
    case body
    then show ?thesis by (simp add: error_detail_def py_get_not_dict)
  next
    case member
    then show ?thesis by (simp add: error_detail_def py_get_not_dict)
  qed
qed

lemma success_pipeline:
  assumes post: "post (build_request c (prompt req) (max_tokens req)) = Inr r"
    and ok: "status_code r = 200" and body: "json r = Inr (JObj data)"
    and ex: "extract_reply (JObj data) = Inr (JStr t)"
    and um: "(map_of data ''usageMetadata'' = None \<and> pt = None \<and> ct = None) \<or>
         (map_of data ''usageMetadata'' = Some (JObj um)
          \<and> map_of um ''promptTokenCount'' = map_option JInt pt
          \<and> map_of um ''candidatesTokenCount'' = map_option JInt ct)"
  shows "ai_reply c post u req =
           Inr \<lparr> id_str = u, reply = t, model_id = model c,
                 usage = \<lparr> prompt_tokens = pt, completion_tokens = ct \<rparr> \<rparr>"
proof -
  have "generate_response_try c post (prompt req) (max_tokens req) =
          Inr [(''reply'', JStr t), (''model'', JStr (model c)),
               (''prompt_tokens'', case pt of None \<Rightarrow> JNull | Some n \<Rightarrow> JInt n),
               (''completion_tokens'', case ct of None \<Rightarrow> JNull | Some n \<Rightarrow> JInt n)]"
    using assms
    by (cases pt; cases ct) (auto simp: generate_response_try_def)
  then show ?thesis
    by (cases pt; cases ct)
       (simp_all add: ai_reply_def ai_reply_try_def generate_response_def dict_item_def dict_get_def)
qed

text \<open>Claim C1. When the upstream answers 401 with an error message in its body, the handler answers 500, and the detail it sends is the client's message, which holds the upstream's authentication diagnostic (here with the text 401 in it).\<close>

theorem auth_failure_detail_reaches_caller:
  \<open>ai_reply (GeminiClient_init ''test_api_key_12345'')
     (\<lambda>request. Inr \<lparr> status_code = 401,
        body_text = ''{"error": {"code": 401, "message": "API key not valid (401)"}}'',
        json = Inr (JObj [(''error'', JObj [(''code'', JInt 401),
                                            (''message'', JStr ''API key not valid (401)'')])]) \<rparr>)
     ''id-1'' \<lparr> prompt = ''Hello'', max_tokens = Some 100 \<rparr>
   = Inl (HTTPException 500 ''Gemini API error: Gemini API error: API key not valid (401)'')\<close>
  by (simp add: ai_reply_def ai_reply_try_def generate_response_def generate_response_try_def
      error_detail_def)

text \<open>Claim C3. A transport failure that is not a timeout becomes a \<open>GeminiError\<close> with the message \<^verbatim>\<open>Unexpected error: ...\<close> and no status; the handler answers it with 502 and sends the internal message in the detail.\<close>

theorem unexpected_failure_is_bad_gateway:
  "ai_reply (GeminiClient_init ''test_api_key_12345'')
     (\<lambda>request. Inl (PyException ''All connection attempts failed''))
     ''id-1'' \<lparr> prompt = ''Hello'', max_tokens = Some 100 \<rparr>
   = Inl (HTTPException 502 ''Gemini API error: Unexpected error: All connection attempts failed'')"
  by (simp add: ai_reply_def ai_reply_try_def generate_response_def generate_response_try_def)

text \<open>Claim C2. (as amended) When the upstream answers with a status other than 200, \<^verbatim>\<open>generate_response\<close> fails with a \<open>GeminiError\<close> that carries that status, and the status the handler sends is 500 for 401, 503 for 429 and 502 for every other status (403 included).\<close>

theorem rejected_status_mapping:
  assumes "post (build_request c (prompt req) (max_tokens req)) = Inr r"
    and "status_code r \<noteq> 200"
  shows "generate_response c post (prompt req) (max_tokens req) =
           Inl (GeminiError (''Gemini API error: '' @ py_str (error_detail r)) (Some (status_code r)))
       \<and> outward_status (ai_reply c post u req) =
           (if status_code r = 401 then 500 else if status_code r = 429 then 503 else 502)"
proof -
  have g: "generate_response c post (prompt req) (max_tokens req) =
      Inl (GeminiError (''Gemini API error: '' @ py_str (error_detail r)) (Some (status_code r)))"
    using assms by (simp add: rejected_pipeline)
  from reply_gemini [OF g] g show ?thesis by simp
qed

text \<open>Claim C2, at a concrete input.\<close>

theorem rejected_status_mapping_witness:
  \<open>outward_status
     (ai_reply (GeminiClient_init ''test_api_key_12345'')
        (\<lambda>request. Inr \<lparr> status_code = 429, body_text = ''{"error": {"message": "Quota exceeded"}}'',
           json = Inr (JObj [(''error'', JObj [(''message'', JStr ''Quota exceeded'')])]) \<rparr>)
        ''id-1'' \<lparr> prompt = ''Hello'', max_tokens = Some 100 \<rparr>) = 503\<close>
  using rejected_status_mapping
    [of "\<lambda>request. Inr \<lparr> status_code = 429, body_text = ''{\"error\": {\"message\": \"Quota exceeded\"}}'',
           json = Inr (JObj [(''error'', JObj [(''message'', JStr ''Quota exceeded'')])]) \<rparr>"
        "GeminiClient_init ''test_api_key_12345''" "\<lparr> prompt = ''Hello'', max_tokens = Some 100 \<rparr>" _ "''id-1''"]
  by simp

text \<open>Claim C2. (counterexample to the claim as stated) For the upstream status 403 the handler sends 502, not 500.\<close>

theorem forbidden_is_bad_gateway:
  \<open>outward_status
     (ai_reply (GeminiClient_init ''test_api_key_12345'')
        (\<lambda>request. Inr \<lparr> status_code = 403, body_text = ''{"error": {"message": "Permission denied"}}'',
           json = Inr (JObj [(''error'', JObj [(''message'', JStr ''Permission denied'')])]) \<rparr>)
        ''id-1'' \<lparr> prompt = ''Hello'', max_tokens = Some 100 \<rparr>) = 502
   \<and> outward_status
     (ai_reply (GeminiClient_init ''test_api_key_12345'')
        (\<lambda>request. Inr \<lparr> status_code = 403, body_text = ''{"error": {"message": "Permission denied"}}'',
           json = Inr (JObj [(''error'', JObj [(''message'', JStr ''Permission denied'')])]) \<rparr>)
        ''id-1'' \<lparr> prompt = ''Hello'', max_tokens = Some 100 \<rparr>) \<noteq> 500\<close>
  by (simp add: ai_reply_def ai_reply_try_def generate_response_def generate_response_try_def
      error_detail_def)

text \<open>Claim C5. When the transport raises a timeout, \<^verbatim>\<open>generate_response\<close> fails with exactly \<open>GeminiTimeoutError\<close>, and the handler answers 504.\<close>

theorem timeout_is_gateway_timeout:
  assumes "post (build_request c (prompt req) (max_tokens req)) = Inl (TimeoutException m)"
  shows "generate_response c post (prompt req) (max_tokens req) =
           Inl (GeminiTimeoutError ''Request to Gemini API timed out'')
       \<and> ai_reply c post u req = Inl (HTTPException 504 ''Request to Gemini AI timed out'')"
proof -
  have g: "generate_response c post (prompt req) (max_tokens req) =
      Inl (GeminiTimeoutError ''Request to Gemini API timed out'')"
    using assms by (simp add: generate_response_def try_timeout)
  from reply_gemini [OF g] g show ?thesis by simp
qed

text \<open>Claim C5, at a concrete input.\<close>

theorem timeout_is_gateway_timeout_witness:
  "generate_response (GeminiClient_init ''test_api_key_12345'')
       (\<lambda>request. Inl (TimeoutException ''The read operation timed out'')) ''Hello'' (Some 100) =
     Inl (GeminiTimeoutError ''Request to Gemini API timed out'')
   \<and> ai_reply (GeminiClient_init ''test_api_key_12345'')
       (\<lambda>request. Inl (TimeoutException ''The read operation timed out''))
       ''id-1'' \<lparr> prompt = ''Hello'', max_tokens = Some 100 \<rparr> =
     Inl (HTTPException 504 ''Request to Gemini AI timed out'')"
  using timeout_is_gateway_timeout
    [of "\<lambda>request. Inl (TimeoutException ''The read operation timed out'')"
        "GeminiClient_init ''test_api_key_12345''" "\<lparr> prompt = ''Hello'', max_tokens = Some 100 \<rparr>"
        "''The read operation timed out''" "''id-1''"]
  by simp



text \<open>Claim C10. When the first part of the first candidate has no \<^verbatim>\<open>text\<close> member, extraction fails with \<^verbatim>\<open>Empty reply from Gemini\<close>, exactly as for the same body with an empty text.\<close>

theorem missing_text_is_empty_reply:
  assumes "map_of data ''candidates'' = Some (JArr (JObj cand # cs))"
    and "map_of cand ''content'' = Some (JObj content)"
    and "map_of content ''parts'' = Some (JArr (JObj part # ps))"
    and "map_of part ''text'' = None"
  shows "extract_reply (JObj data) = Inl (GeminiError ''Empty reply from Gemini'' None)
       \<and> extract_reply (JObj data) =
           extract_reply (JObj [(''candidates'',
             JArr [JObj [(''content'', JObj [(''parts'', JArr [JObj [(''text'', JStr [])]])])]])])"
proof -
  have a: "extract_reply (JObj data) = Inl (GeminiError ''Empty reply from Gemini'' None)"
    using assms by (simp add: extract_empty_text)
  have b: "extract_reply (JObj [(''candidates'',
             JArr [JObj [(''content'', JObj [(''parts'', JArr [JObj [(''text'', JStr [])]])])]])])
           = Inl (GeminiError ''Empty reply from Gemini'' None)"
    by (simp add: extract_reply_def extract_reply_try_def)
  from a b show ?thesis by simp
qed

text \<open>Claim C10, at a concrete input.\<close>

theorem missing_text_is_empty_reply_witness:
  "extract_reply (JObj [(''candidates'',
      JArr [JObj [(''content'', JObj [(''parts'', JArr [JObj [(''thought'', JBool True)]])])]])])
   = Inl (GeminiError ''Empty reply from Gemini'' None)"
  using missing_text_is_empty_reply
    [of "[(''candidates'',
      JArr [JObj [(''content'', JObj [(''parts'', JArr [JObj [(''thought'', JBool True)]])])]])]"
      "[(''content'', JObj [(''parts'', JArr [JObj [(''thought'', JBool True)]])])]" "[]"
      "[(''parts'', JArr [JObj [(''thought'', JBool True)]])]"
      "[(''thought'', JBool True)]" "[]"]
  by simp

text \<open>The three validation stages, for a response of status 200 whose body is a dict, the first candidate a dict, its content absent or a dict, and the first part a dict: absent (or empty) candidates, absent (or empty) parts and an absent (or empty) text each make \<^verbatim>\<open>generate_response\<close> fail with a \<open>GeminiError\<close> without status whose message names the stage, and the handler answers 502.\<close>

lemma malformed_stages_dict_body:
  assumes "post (build_request c (prompt req) (max_tokens req)) = Inr r"
    and "status_code r = 200" and "json r = Inr (JObj data)"
  shows "(missing_or_falsy (map_of data ''candidates'') \<longrightarrow>
            generate_response c post (prompt req) (max_tokens req) =
              Inl (GeminiError ''No candidates in response'' None)
          \<and> ai_reply c post u req =
              Inl (HTTPException 502 ''Gemini API error: No candidates in response''))
       \<and> (map_of data ''candidates'' = Some (JArr (JObj cand # cs))
           \<and> (map_of cand ''content'' = None
               \<or> (map_of cand ''content'' = Some (JObj content)
                   \<and> missing_or_falsy (map_of content ''parts''))) \<longrightarrow>
            generate_response c post (prompt req) (max_tokens req) =
              Inl (GeminiError ''No parts in response content'' None)
          \<and> ai_reply c post u req =
              Inl (HTTPException 502 ''Gemini API error: No parts in response content''))
       \<and> (map_of data ''candidates'' = Some (JArr (JObj cand # cs))
           \<and> map_of cand ''content'' = Some (JObj content)
           \<and> map_of content ''parts'' = Some (JArr (JObj part # ps))
           \<and> missing_or_falsy (map_of part ''text'') \<longrightarrow>
            generate_response c post (prompt req) (max_tokens req) =
              Inl (GeminiError ''Empty reply from Gemini'' None)
          \<and> ai_reply c post u req =
              Inl (HTTPException 502 ''Gemini API error: Empty reply from Gemini''))"
proof (intro conjI impI)
  assume "missing_or_falsy (map_of data ''candidates'')"
  then have "extract_reply (JObj data) = Inl (GeminiError ''No candidates in response'' None)"
    by (rule extract_no_candidates)
  with assms have *: "generate_response c post (prompt req) (max_tokens req) =
        Inl (GeminiError ''No candidates in response'' None)
      \<and> ai_reply c post u req =
        Inl (HTTPException 502 (''Gemini API error: '' @ ''No candidates in response''))"
    by (intro malformed_pipeline)
  from * show "generate_response c post (prompt req) (max_tokens req) =
        Inl (GeminiError ''No candidates in response'' None)" by simp
  from * show "ai_reply c post u req =
        Inl (HTTPException 502 ''Gemini API error: No candidates in response'')" by simp
next
  assume "map_of data ''candidates'' = Some (JArr (JObj cand # cs))
           \<and> (map_of cand ''content'' = None
               \<or> (map_of cand ''content'' = Some (JObj content)
                   \<and> missing_or_falsy (map_of content ''parts'')))"
  then have "extract_reply (JObj data) = Inl (GeminiError ''No parts in response content'' None)"
    using extract_no_parts [of data cand cs content] by blast
  with assms have *: "generate_response c post (prompt req) (max_tokens req) =
        Inl (GeminiError ''No parts in response content'' None)
      \<and> ai_reply c post u req =
        Inl (HTTPException 502 (''Gemini API error: '' @ ''No parts in response content''))"
    by (intro malformed_pipeline)
  from * show "generate_response c post (prompt req) (max_tokens req) =
        Inl (GeminiError ''No parts in response content'' None)" by simp
  from * show "ai_reply c post u req =
        Inl (HTTPException 502 ''Gemini API error: No parts in response content'')" by simp
next
  assume "map_of data ''candidates'' = Some (JArr (JObj cand # cs))
           \<and> map_of cand ''content'' = Some (JObj content)
           \<and> map_of content ''parts'' = Some (JArr (JObj part # ps))
           \<and> missing_or_falsy (map_of part ''text'')"
  then have "extract_reply (JObj data) = Inl (GeminiError ''Empty reply from Gemini'' None)"
    using extract_empty_text [of data cand cs content part ps] by blast
  with assms have *: "generate_response c post (prompt req) (max_tokens req) =
        Inl (GeminiError ''Empty reply from Gemini'' None)
      \<and> ai_reply c post u req =
        Inl (HTTPException 502 (''Gemini API error: '' @ ''Empty reply from Gemini''))"
    by (intro malformed_pipeline)
  from * show "generate_response c post (prompt req) (max_tokens req) =
        Inl (GeminiError ''Empty reply from Gemini'' None)" by simp
  from * show "ai_reply c post u req =
        Inl (HTTPException 502 ''Gemini API error: Empty reply from Gemini'')" by simp
qed

text \<open>The three stages at concrete bodies.\<close>

lemma malformed_stages_examples:
  \<open>ai_reply (GeminiClient_init ''test_api_key_12345'')
      (\<lambda>request. Inr \<lparr> status_code = 200, body_text = ''{"candidates": []}'',
         json = Inr (JObj [(''candidates'', JArr [])]) \<rparr>)
      ''id-1'' \<lparr> prompt = ''Hello'', max_tokens = Some 100 \<rparr>
    = Inl (HTTPException 502 ''Gemini API error: No candidates in response'')
   \<and> ai_reply (GeminiClient_init ''test_api_key_12345'')
      (\<lambda>request. Inr \<lparr> status_code = 200, body_text = ''{"candidates": [{"finishReason": "SAFETY"}]}'',
         json = Inr (JObj [(''candidates'', JArr [JObj [(''finishReason'', JStr ''SAFETY'')]])]) \<rparr>)
      ''id-1'' \<lparr> prompt = ''Hello'', max_tokens = Some 100 \<rparr>
    = Inl (HTTPException 502 ''Gemini API error: No parts in response content'')
   \<and> ai_reply (GeminiClient_init ''test_api_key_12345'')
      (\<lambda>request. Inr \<lparr> status_code = 200,
         body_text = ''{"candidates": [{"content": {"parts": [{"text": ""}]}}]}'',
         json = Inr (JObj [(''candidates'',
           JArr [JObj [(''content'', JObj [(''parts'', JArr [JObj [(''text'', JStr [])]])])]])]) \<rparr>)
      ''id-1'' \<lparr> prompt = ''Hello'', max_tokens = Some 100 \<rparr>
    = Inl (HTTPException 502 ''Gemini API error: Empty reply from Gemini'')\<close>
  using
    malformed_stages_dict_body
      [where post = \<open>\<lambda>request. Inr \<lparr> status_code = 200, body_text = ''{"candidates": []}'',
         json = Inr (JObj [(''candidates'', JArr [])]) \<rparr>\<close>
       and c = "GeminiClient_init ''test_api_key_12345''"
       and req = "\<lparr> prompt = ''Hello'', max_tokens = Some 100 \<rparr>"
       and data = "[(''candidates'', JArr [])]" and u = "''id-1''"]
    malformed_stages_dict_body
      [where post = \<open>\<lambda>request. Inr \<lparr> status_code = 200,
         body_text = ''{"candidates": [{"finishReason": "SAFETY"}]}'',
         json = Inr (JObj [(''candidates'', JArr [JObj [(''finishReason'', JStr ''SAFETY'')]])]) \<rparr>\<close>
       and c = "GeminiClient_init ''test_api_key_12345''"
       and req = "\<lparr> prompt = ''Hello'', max_tokens = Some 100 \<rparr>"
       and data = "[(''candidates'', JArr [JObj [(''finishReason'', JStr ''SAFETY'')]])]"
       and cand = "[(''finishReason'', JStr ''SAFETY'')]" and cs = "[]" and u = "''id-1''"]
    malformed_stages_dict_body
      [where post = \<open>\<lambda>request. Inr \<lparr> status_code = 200,
         body_text = ''{"candidates": [{"content": {"parts": [{"text": ""}]}}]}'',
         json = Inr (JObj [(''candidates'',
           JArr [JObj [(''content'', JObj [(''parts'', JArr [JObj [(''text'', JStr [])]])])]])]) \<rparr>\<close>
       and c = "GeminiClient_init ''test_api_key_12345''"
       and req = "\<lparr> prompt = ''Hello'', max_tokens = Some 100 \<rparr>"
       and data = "[(''candidates'',
           JArr [JObj [(''content'', JObj [(''parts'', JArr [JObj [(''text'', JStr [])]])])]])]"
       and cand = "[(''content'', JObj [(''parts'', JArr [JObj [(''text'', JStr [])]])])]"
       and cs = "[]" and content = "[(''parts'', JArr [JObj [(''text'', JStr [])]])]"
       and part = "[(''text'', JStr [])]" and ps = "[]" and u = "''id-1''"]
  by simp

text \<open>Claim C6. (as amended) For a response whose status is not 200, \<^verbatim>\<open>generate_response\<close> fails with a \<open>GeminiError\<close> carrying that status; its message is \<^verbatim>\<open>Gemini API error: \<close> followed by the body's \<^verbatim>\<open>error.message\<close> when the body decodes to a dict whose \<^verbatim>\<open>error\<close> is a dict with a \<^verbatim>\<open>message\<close>, by the fixed text \<^verbatim>\<open>Unknown error\<close> when the \<^verbatim>\<open>error\<close> or its \<^verbatim>\<open>message\<close> is absent, and by the first 200 characters of the raw body when decoding raises or the body or its \<^verbatim>\<open>error\<close> is not a dict.\<close>

theorem rejected_message:
  assumes "post (build_request c p mt) = Inr r" and "status_code r \<noteq> 200"
  shows "(json r = Inr (JObj d) \<and> map_of d ''error'' = Some (JObj e) \<and> map_of e ''message'' = Some m \<longrightarrow>
            generate_response c post p mt =
              Inl (GeminiError (''Gemini API error: '' @ py_str m) (Some (status_code r))))
       \<and> (json r = Inr (JObj d)
           \<and> (map_of d ''error'' = None
               \<or> (map_of d ''error'' = Some (JObj e) \<and> map_of e ''message'' = None)) \<longrightarrow>
            generate_response c post p mt =
              Inl (GeminiError ''Gemini API error: Unknown error'' (Some (status_code r))))
       \<and> ((\<exists>x. json r = Inl x) \<or> (json r = Inr v \<and> \<not> is_dict v)
           \<or> (json r = Inr (JObj d) \<and> map_of d ''error'' = Some v \<and> \<not> is_dict v) \<longrightarrow>
            generate_response c post p mt =
              Inl (GeminiError (''Gemini API error: '' @ take 200 (body_text r))
                     (Some (status_code r))))"
proof -
  have g: "generate_response c post p mt =
      Inl (GeminiError (''Gemini API error: '' @ py_str (error_detail r)) (Some (status_code r)))"
    using assms by (simp add: try_rejected generate_gemini)
  show ?thesis
  proof (intro conjI impI)
    assume "json r = Inr (JObj d) \<and> map_of d ''error'' = Some (JObj e) \<and> map_of e ''message'' = Some m"
    then have "error_detail r = m" by (simp add: detail_structured)
    with g show "generate_response c post p mt =
        Inl (GeminiError (''Gemini API error: '' @ py_str m) (Some (status_code r)))" by simp
  next
    assume "json r = Inr (JObj d)
           \<and> (map_of d ''error'' = None
               \<or> (map_of d ''error'' = Some (JObj e) \<and> map_of e ''message'' = None))"
    then have "error_detail r = JStr ''Unknown error''"
      using detail_unknown [of r d e] by blast
    with g show "generate_response c post p mt =
        Inl (GeminiError ''Gemini API error: Unknown error'' (Some (status_code r)))" by simp
  next
    assume "(\<exists>x. json r = Inl x) \<or> (json r = Inr v \<and> \<not> is_dict v)
           \<or> (json r = Inr (JObj d) \<and> map_of d ''error'' = Some v \<and> \<not> is_dict v)"
    then have "error_detail r = JStr (take 200 (body_text r))" by (rule detail_raw)
    with g show "generate_response c post p mt =
        Inl (GeminiError (''Gemini API error: '' @ take 200 (body_text r)) (Some (status_code r)))"
      by simp
  qed
qed

text \<open>Claim C6, at a concrete input.\<close>

theorem rejected_message_witness:
  \<open>generate_response (GeminiClient_init ''test_api_key_12345'')
      (\<lambda>request. Inr \<lparr> status_code = 400,
         body_text = ''{"error": {"code": 400, "message": "Invalid argument"}}'',
         json = Inr (JObj [(''error'', JObj [(''code'', JInt 400),
                                             (''message'', JStr ''Invalid argument'')])]) \<rparr>)
      ''Hello'' (Some 100)
    = Inl (GeminiError ''Gemini API error: Invalid argument'' (Some 400))
   \<and> generate_response (GeminiClient_init ''test_api_key_12345'')
      (\<lambda>request. Inr \<lparr> status_code = 503, body_text = ''{"error": {"code": 503}}'',
         json = Inr (JObj [(''error'', JObj [(''code'', JInt 503)])]) \<rparr>)
      ''Hello'' (Some 100)
    = Inl (GeminiError ''Gemini API error: Unknown error'' (Some 503))
   \<and> generate_response (GeminiClient_init ''test_api_key_12345'')
      (\<lambda>request. Inr \<lparr> status_code = 502, body_text = ''<html>Bad Gateway</html>'',
         json = Inl (PyException ''Expecting value: line 1 column 1 (char 0)'') \<rparr>)
      ''Hello'' (Some 100)
    = Inl (GeminiError ''Gemini API error: <html>Bad Gateway</html>'' (Some 502))\<close>
  using
    rejected_message
      [where post = \<open>\<lambda>request. Inr \<lparr> status_code = 400,
         body_text = ''{"error": {"code": 400, "message": "Invalid argument"}}'',
         json = Inr (JObj [(''error'', JObj [(''code'', JInt 400),
                                             (''message'', JStr ''Invalid argument'')])]) \<rparr>\<close>
       and c = "GeminiClient_init ''test_api_key_12345''" and p = "''Hello''" and mt = "Some 100"
       and d = "[(''error'', JObj [(''code'', JInt 400), (''message'', JStr ''Invalid argument'')])]"
       and e = "[(''code'', JInt 400), (''message'', JStr ''Invalid argument'')]"
       and m = "JStr ''Invalid argument''"]
    rejected_message
      [where post = \<open>\<lambda>request. Inr \<lparr> status_code = 503, body_text = ''{"error": {"code": 503}}'',
         json = Inr (JObj [(''error'', JObj [(''code'', JInt 503)])]) \<rparr>\<close>
       and c = "GeminiClient_init ''test_api_key_12345''" and p = "''Hello''" and mt = "Some 100"
       and d = "[(''error'', JObj [(''code'', JInt 503)])]"
       and e = "[(''code'', JInt 503)]"]
    rejected_message
      [where post = \<open>\<lambda>request. Inr \<lparr> status_code = 502, body_text = ''<html>Bad Gateway</html>'',
         json = Inl (PyException ''Expecting value: line 1 column 1 (char 0)'') \<rparr>\<close>
       and c = "GeminiClient_init ''test_api_key_12345''" and p = "''Hello''" and mt = "Some 100"]
  by simp

text \<open>Claim C6. (counterexample to the claim as stated) For status 500 and the body \<^verbatim>\<open>{}\<close> the message is \<^verbatim>\<open>Gemini API error: Unknown error\<close>: neither a message parsed from the body nor the raw body.\<close>

theorem unknown_error_is_neither:
  "generate_response (GeminiClient_init ''test_api_key_12345'')
      (\<lambda>request. Inr \<lparr> status_code = 500, body_text = ''{}'', json = Inr (JObj []) \<rparr>)
      ''Hello'' (Some 100)
    = Inl (GeminiError ''Gemini API error: Unknown error'' (Some 500))
   \<and> generate_response (GeminiClient_init ''test_api_key_12345'')
      (\<lambda>request. Inr \<lparr> status_code = 500, body_text = ''{}'', json = Inr (JObj []) \<rparr>)
      ''Hello'' (Some 100)
    \<noteq> Inl (GeminiError (''Gemini API error: '' @ take 200 ''{}'') (Some 500))
   \<and> generate_response (GeminiClient_init ''test_api_key_12345'')
      (\<lambda>request. Inr \<lparr> status_code = 500, body_text = ''{}'', json = Inr (JObj []) \<rparr>)
      ''Hello'' (Some 100)
    \<noteq> Inl (GeminiError (take 200 ''{}'') (Some 500))"
  by (simp add: generate_response_def generate_response_try_def error_detail_def)

text \<open>Claim C7. For a response of status 200 whose body has the text of the first part of the first candidate (a non-empty string), the handler returns a response with that text as reply, the drawn identifier, the client's model, and the usage counts of the body where present (unset where absent, or where there is no usage metadata).\<close>

theorem success_reply_and_usage:
  assumes "post (build_request c (prompt req) (max_tokens req)) = Inr r"
    and "status_code r = 200" and "json r = Inr (JObj data)"
    and "map_of data ''candidates'' = Some (JArr (JObj cand # cs))"
    and "map_of cand ''content'' = Some (JObj content)"
    and "map_of content ''parts'' = Some (JArr (JObj part # ps))"
    and "map_of part ''text'' = Some (JStr t)" and "t \<noteq> []"
    and "(map_of data ''usageMetadata'' = None \<and> pt = None \<and> ct = None) \<or>
         (map_of data ''usageMetadata'' = Some (JObj um)
          \<and> map_of um ''promptTokenCount'' = map_option JInt pt
          \<and> map_of um ''candidatesTokenCount'' = map_option JInt ct)"
  shows "ai_reply c post u req =
           Inr \<lparr> id_str = u, reply = t, model_id = model c,
                 usage = \<lparr> prompt_tokens = pt, completion_tokens = ct \<rparr> \<rparr>"
proof -
  have ex: "extract_reply (JObj data) = Inr (JStr t)"
    using assms(4-8) by (intro extract_text) simp_all
  show ?thesis
    using assms(1-3) ex assms(9) by (rule success_pipeline)
qed

text \<open>Claim C7, at a concrete input.\<close>

theorem success_reply_and_usage_witness:
  \<open>ai_reply (GeminiClient_init ''test_api_key_12345'')
      (\<lambda>request. Inr \<lparr> status_code = 200,
         body_text = ''{"candidates": [{"content": {"parts": [{"text": "Hi there"}]}}], "usageMetadata": {"promptTokenCount": 3, "candidatesTokenCount": 4}}'',
         json = Inr (JObj [(''candidates'',
                   JArr [JObj [(''content'', JObj [(''parts'', JArr [JObj [(''text'', JStr ''Hi there'')]])])]]),
                 (''usageMetadata'', JObj [(''promptTokenCount'', JInt 3),
                                           (''candidatesTokenCount'', JInt 4)])]) \<rparr>)
      ''id-1'' \<lparr> prompt = ''Hello'', max_tokens = Some 100 \<rparr>
    = Inr \<lparr> id_str = ''id-1'', reply = ''Hi there'', model_id = ''gemini-2.5-flash'',
            usage = \<lparr> prompt_tokens = Some 3, completion_tokens = Some 4 \<rparr> \<rparr>
   \<and> ai_reply (GeminiClient_init ''test_api_key_12345'')
      (\<lambda>request. Inr \<lparr> status_code = 200,
         body_text = ''{"candidates": [{"content": {"parts": [{"text": "Hi there"}]}}]}'',
         json = Inr (JObj [(''candidates'',
                   JArr [JObj [(''content'', JObj [(''parts'', JArr [JObj [(''text'', JStr ''Hi there'')]])])]])]) \<rparr>)
      ''id-2'' \<lparr> prompt = ''Hello'', max_tokens = Some 100 \<rparr>
    = Inr \<lparr> id_str = ''id-2'', reply = ''Hi there'', model_id = ''gemini-2.5-flash'',
            usage = \<lparr> prompt_tokens = None, completion_tokens = None \<rparr> \<rparr>\<close>
  using
    success_reply_and_usage
      [where post = \<open>\<lambda>request. Inr \<lparr> status_code = 200,
         body_text = ''{"candidates": [{"content": {"parts": [{"text": "Hi there"}]}}], "usageMetadata": {"promptTokenCount": 3, "candidatesTokenCount": 4}}'',
         json = Inr (JObj [(''candidates'',
                   JArr [JObj [(''content'', JObj [(''parts'', JArr [JObj [(''text'', JStr ''Hi there'')]])])]]),
                 (''usageMetadata'', JObj [(''promptTokenCount'', JInt 3),
                                           (''candidatesTokenCount'', JInt 4)])]) \<rparr>\<close>
       and c = "GeminiClient_init ''test_api_key_12345''"
       and req = "\<lparr> prompt = ''Hello'', max_tokens = Some 100 \<rparr>" and u = "''id-1''"
       and data = "[(''candidates'',
                   JArr [JObj [(''content'', JObj [(''parts'', JArr [JObj [(''text'', JStr ''Hi there'')]])])]]),
                 (''usageMetadata'', JObj [(''promptTokenCount'', JInt 3),
                                           (''candidatesTokenCount'', JInt 4)])]"
       and cand = "[(''content'', JObj [(''parts'', JArr [JObj [(''text'', JStr ''Hi there'')]])])]"
       and cs = "[]" and content = "[(''parts'', JArr [JObj [(''text'', JStr ''Hi there'')]])]"
       and part = "[(''text'', JStr ''Hi there'')]" and ps = "[]" and t = "''Hi there''"
       and um = "[(''promptTokenCount'', JInt 3), (''candidatesTokenCount'', JInt 4)]"
       and pt = "Some 3" and ct = "Some 4"]
    success_reply_and_usage
      [where post = \<open>\<lambda>request. Inr \<lparr> status_code = 200,
         body_text = ''{"candidates": [{"content": {"parts": [{"text": "Hi there"}]}}]}'',
         json = Inr (JObj [(''candidates'',
                   JArr [JObj [(''content'', JObj [(''parts'', JArr [JObj [(''text'', JStr ''Hi there'')]])])]])]) \<rparr>\<close>
       and c = "GeminiClient_init ''test_api_key_12345''"
       and req = "\<lparr> prompt = ''Hello'', max_tokens = Some 100 \<rparr>" and u = "''id-2''"
       and data = "[(''candidates'',
                   JArr [JObj [(''content'', JObj [(''parts'', JArr [JObj [(''text'', JStr ''Hi there'')]])])]])]"
       and cand = "[(''content'', JObj [(''parts'', JArr [JObj [(''text'', JStr ''Hi there'')]])])]"
       and cs = "[]" and content = "[(''parts'', JArr [JObj [(''text'', JStr ''Hi there'')]])]"
       and part = "[(''text'', JStr ''Hi there'')]" and ps = "[]" and t = "''Hi there''"
       and pt = None and ct = None]
  by (simp add: GeminiClient_init_def)

lemma handle_rejects:
  assumes "counter (current_window window now (rates gate caller)) = limit"
  shows "handle limit window client post gate now caller u req =
           (RateLimited,
            gate\<lparr> rates := (rates gate)(caller := Some (current_window window now (rates gate caller))) \<rparr>)"
  using assms by (simp add: handle_def Let_def)

lemma handle_other_caller:
  assumes "rates gate' other = rates gate other"
  shows "fst (handle limit window client post gate' now other u req) =
         fst (handle limit window client post gate now other u req)"
  using assms by (simp add: handle_def Let_def)

text \<open>Claim C8. In the admission model: a caller already counted \<open>limit\<close> times in the current window is rejected, the upstream client is not invoked, the counters of every other caller are unchanged, and so is the outcome of any later call of another caller.\<close>

theorem rate_limited_without_upstream:
  assumes "counter (current_window window now (rates gate caller)) = limit"
  shows "fst (handle limit window client post gate now caller u req) = RateLimited
       \<and> upstream_calls (snd (handle limit window client post gate now caller u req)) =
           upstream_calls gate
       \<and> (\<forall>other. other \<noteq> caller \<longrightarrow>
             rates (snd (handle limit window client post gate now caller u req)) other =
               rates gate other)
       \<and> (\<forall>other. other \<noteq> caller \<longrightarrow>
             fst (handle limit window client post'
                    (snd (handle limit window client post gate now caller u req)) now' other u' req') =
             fst (handle limit window client post' gate now' other u' req'))"
proof -
  note h = handle_rejects [OF assms, of client post u req]
  have r: "\<forall>other. other \<noteq> caller \<longrightarrow>
             rates (snd (handle limit window client post gate now caller u req)) other =
               rates gate other"
    by (simp add: h)
  have o: "\<forall>other. other \<noteq> caller \<longrightarrow>
             fst (handle limit window client post'
                    (snd (handle limit window client post gate now caller u req)) now' other u' req') =
             fst (handle limit window client post' gate now' other u' req')"
  proof (intro allI impI)
    fix other
    assume "other \<noteq> caller"
    with r have "rates (snd (handle limit window client post gate now caller u req)) other =
        rates gate other"
      by blast
    then show "fst (handle limit window client post'
                    (snd (handle limit window client post gate now caller u req)) now' other u' req') =
             fst (handle limit window client post' gate now' other u' req')"
      by (rule handle_other_caller)
  qed
  from r o show ?thesis by (simp add: h)
qed

lemma after_two_calls:
  "rates (snd (handle 2 60 client post
            (snd (handle 2 60 client post empty_gate 0 a u1 req)) 1 a u2 req)) =
     (\<lambda>caller. None)(a := Some \<lparr> counter = 2, window_start = 0 \<rparr>)"
  "upstream_calls (snd (handle 2 60 client post
            (snd (handle 2 60 client post empty_gate 0 a u1 req)) 1 a u2 req)) = 2"
  by (simp_all add: handle_def current_window_def empty_gate_def Let_def numeral_2_eq_2)

lemma first_call_admitted:
  assumes "rates gate b = None" and "0 < limit"
  shows "fst (handle limit window client post gate now b u req) =
           Handled (ai_reply client post u req)"
  using assms by (simp add: handle_def current_window_def Let_def)

text \<open>Claim C8, at a concrete input.\<close>

theorem rate_limited_without_upstream_witness:
  \<open>(let post = (\<lambda>request. Inr \<lparr> status_code = 200,
         body_text = ''{"candidates": [{"content": {"parts": [{"text": "Hi there"}]}}]}'',
         json = Inr (JObj [(''candidates'',
                   JArr [JObj [(''content'', JObj [(''parts'', JArr [JObj [(''text'', JStr ''Hi there'')]])])]])]) \<rparr>);
        client = GeminiClient_init ''test_api_key_12345'';
        req = \<lparr> prompt = ''Hello'', max_tokens = Some 100 \<rparr>;
        gate1 = snd (handle 2 60 client post empty_gate 0 ''10.0.0.1'' ''id-1'' req);
        gate2 = snd (handle 2 60 client post gate1 1 ''10.0.0.1'' ''id-2'' req);
        third = handle 2 60 client post gate2 2 ''10.0.0.1'' ''id-3'' req
    in upstream_calls gate2 = 2
       \<and> fst third = RateLimited
       \<and> upstream_calls (snd third) = 2
       \<and> fst (handle 2 60 client post (snd third) 3 ''10.0.0.2'' ''id-4'' req) =
           Handled (Inr \<lparr> id_str = ''id-4'', reply = ''Hi there'', model_id = ''gemini-2.5-flash'',
                          usage = \<lparr> prompt_tokens = None, completion_tokens = None \<rparr> \<rparr>))\<close>
proof -
  let ?post = \<open>\<lambda>request :: http_request. Inr \<lparr> status_code = 200,
         body_text = ''{"candidates": [{"content": {"parts": [{"text": "Hi there"}]}}]}'',
         json = Inr (JObj [(''candidates'',
                   JArr [JObj [(''content'', JObj [(''parts'', JArr [JObj [(''text'', JStr ''Hi there'')]])])]])]) \<rparr>
         :: exn + response\<close>
  let ?client = "GeminiClient_init ''test_api_key_12345''"
  let ?req = "\<lparr> prompt = ''Hello'', max_tokens = Some 100 \<rparr>"
  let ?gate1 = "snd (handle 2 60 ?client ?post empty_gate 0 ''10.0.0.1'' ''id-1'' ?req)"
  let ?gate2 = "snd (handle 2 60 ?client ?post ?gate1 1 ''10.0.0.1'' ''id-2'' ?req)"
  let ?third = "handle 2 60 ?client ?post ?gate2 2 ''10.0.0.1'' ''id-3'' ?req"
  have g2: "rates ?gate2 = (\<lambda>caller. None)(''10.0.0.1'' := Some \<lparr> counter = 2, window_start = 0 \<rparr>)"
    by (rule after_two_calls(1))
  have u2: "upstream_calls ?gate2 = 2"
    by (rule after_two_calls(2))
  have c2: "counter (current_window 60 2 (rates ?gate2 ''10.0.0.1'')) = 2"
    by (simp only: g2) (simp add: current_window_def)
  have o2: "rates ?gate2 ''10.0.0.2'' = None"
    by (simp only: g2) simp
  note T = rate_limited_without_upstream [OF c2, where client = ?client and post = ?post
      and u = "''id-3''" and req = ?req and post' = ?post and now' = 3 and u' = "''id-4''"
      and req' = ?req]
  have t1: "fst ?third = RateLimited"
    using T by (rule conjunct1)
  have t2: "upstream_calls (snd ?third) = 2"
    using T [THEN conjunct2, THEN conjunct1] by (simp only: u2)
  have ne: "''10.0.0.2'' \<noteq> ''10.0.0.1''" by simp
  have t3: "fst (handle 2 60 ?client ?post (snd ?third) 3 ''10.0.0.2'' ''id-4'' ?req) =
            fst (handle 2 60 ?client ?post ?gate2 3 ''10.0.0.2'' ''id-4'' ?req)"
    using T [THEN conjunct2, THEN conjunct2, THEN conjunct2, THEN spec, THEN mp, OF ne] .
  have a: "ai_reply ?client ?post ''id-4'' ?req =
      Inr \<lparr> id_str = ''id-4'', reply = ''Hi there'', model_id = ''gemini-2.5-flash'',
            usage = \<lparr> prompt_tokens = None, completion_tokens = None \<rparr> \<rparr>"
    by (simp add: ai_reply_def ai_reply_try_def generate_response_def generate_response_try_def
        extract_reply_def extract_reply_try_def dict_item_def dict_get_def GeminiClient_init_def)
  have t4: "fst (handle 2 60 ?client ?post (snd ?third) 3 ''10.0.0.2'' ''id-4'' ?req) =
      Handled (Inr \<lparr> id_str = ''id-4'', reply = ''Hi there'', model_id = ''gemini-2.5-flash'',
            usage = \<lparr> prompt_tokens = None, completion_tokens = None \<rparr> \<rparr>)"
  proof -
    have pos: "(0::nat) < 2" by simp
    show ?thesis
      by (simp only: t3 first_call_admitted [OF o2 pos] a)
  qed
  show ?thesis
    by (simp only: Let_def u2 t1 t2 t4 simp_thms)
qed

text \<open>Claim C4. For the body \<^verbatim>\<open>{"candidates": [{"content": null}]}\<close> of status 200 the parts are absent, yet \<^verbatim>\<open>_extract_reply\<close> raises \<^verbatim>\<open>AttributeError\<close> from \<^verbatim>\<open>content.get\<close>, which its \<^verbatim>\<open>except\<close> clause does not name: \<^verbatim>\<open>generate_response\<close> fails with \<^verbatim>\<open>Unexpected error: ...\<close> and not with the reason of the stage. The sibling case of parts that cannot be indexed (\<^verbatim>\<open>TypeError\<close>) is reported as \<^verbatim>\<open>Invalid response format: ...\<close>.\<close>

theorem null_content_is_unexpected:
  \<open>extract_reply (JObj [(''candidates'', JArr [JObj [(''content'', JNull)]])]) =
     Inl (AttributeError (quoted ''NoneType'' @ '' object has no attribute '' @ quoted ''get''))
   \<and> generate_response (GeminiClient_init ''test_api_key_12345'')
      (\<lambda>request. Inr \<lparr> status_code = 200, body_text = ''{"candidates": [{"content": null}]}'',
         json = Inr (JObj [(''candidates'', JArr [JObj [(''content'', JNull)]])]) \<rparr>)
      ''Hello'' (Some 100)
    = Inl (GeminiError
        (''Unexpected error: '' @ quoted ''NoneType'' @ '' object has no attribute '' @ quoted ''get'')
        None)
   \<and> ai_reply (GeminiClient_init ''test_api_key_12345'')
      (\<lambda>request. Inr \<lparr> status_code = 200, body_text = ''{"candidates": [{"content": null}]}'',
         json = Inr (JObj [(''candidates'', JArr [JObj [(''content'', JNull)]])]) \<rparr>)
      ''id-1'' \<lparr> prompt = ''Hello'', max_tokens = Some 100 \<rparr>
    = Inl (HTTPException 502
        (''Gemini API error: Unexpected error: '' @ quoted ''NoneType''
           @ '' object has no attribute '' @ quoted ''get''))
   \<and> extract_reply (JObj [(''candidates'', JArr [JObj [(''content'', JObj [(''parts'', JInt 5)])]])]) =
     Inl (GeminiError
        (''Invalid response format: '' @ quoted ''int'' @ '' object is not subscriptable'') None)\<close>
  by (simp add: ai_reply_def ai_reply_try_def generate_response_def generate_response_try_def
      extract_reply_def extract_reply_try_def quoted_def)

end
